theory Spec2Isabelle
  imports Complex_Main "HOL-Library.Word"
begin

section \<open>The operator cost model of the parallel strategy planner\<close>

text \<open>
  Source: \<^verbatim>\<open>mindspore/ccsrc/parallel/auto_parallel/operator_costmodel.h\<close>.

  The header declares the abstract class \<^verbatim>\<open>OperatorCost\<close> and sixteen concrete cost
  classes. Some member functions have their body in the header; the others are only declared
  there and defined out of line in a translation unit that is not among the sources. The
  model keeps the two apart: a body written in the header is a definition below, a body
  defined out of line is looked up in a parameter \<open>ool\<close> of the query functions.

  A \<^verbatim>\<open>double\<close> is modelled by a real number. The theorems below only concern the literal
  \<^verbatim>\<open>0.0\<close>, one addition of two results, and finite products and sums of small integers.
\<close>

subsection \<open>Constants and scalar types\<close>

type_synonym size_t = "64 word"
type_synonym int32_t = "32 word"

definition MAXIMUM_INPUT_NUMBER :: nat where
  "MAXIMUM_INPUT_NUMBER = 100"

definition DEFAULT_DATA_TYPE_LENGTH :: size_t where
  "DEFAULT_DATA_TYPE_LENGTH = 4"

subsection \<open>Tensor descriptors\<close>

text \<open>
  Modelled from the spec: \<^verbatim>\<open>parallel/tensor_layout/tensor_info.h\<close>, which declares
  \<^verbatim>\<open>TensorInfo\<close>, is not among the sources. The specification describes a tensor descriptor
  as the logical shape of one tensor together with its shard under a candidate strategy, from
  which the cost model derives an element count. The record keeps the two dimension vectors.
\<close>

type_synonym Shape = "int list"

record TensorInfo =
  shape :: Shape
  slice_shape :: Shape

text \<open>
  \<^verbatim>\<open>ListProduct\<close> (header, lines 33 to 40): the accumulator starts at 1 and is multiplied by
  every entry in turn.
\<close>

definition ListProduct :: "int list \<Rightarrow> real" where
  "ListProduct vec = foldl (\<lambda>result v. result * real_of_int v) 1 vec"

subsection \<open>Classes and data members\<close>

datatype cost_class =
    MatMulCost
  | ActivationCost
  | SoftmaxCost
  | TmpIdentityCost
  | BatchParallelCost
  | VirtualDatasetCost
  | GeneratorBaseCost
  | PReLUCost
  | OneHotCost
  | SoftmaxCrossEntropyWithLogitsCost
  | ReshapeCost
  | ArithmeticCost
  | L2NormalizeCost
  | ReduceMethodCost
  | ReduceMeanCost
  | GetNextCost

text \<open>
  The data members of an instance. The three vectors are the protected members of
  \<^verbatim>\<open>OperatorCost\<close>. The member \<^verbatim>\<open>cross_batch_\<close> belongs to \<^verbatim>\<open>ReduceMethodCost\<close> and is
  inherited by \<^verbatim>\<open>ReduceMeanCost\<close>; the other classes have no such member, and no body of
  theirs written in the header reads the field. A field name cannot end in an underscore
  here, so the trailing underscore of each member is written \<open>_f\<close>.
\<close>

record members =
  is_parameter_f :: "bool list"
  inputs_type_lengths_f :: "size_t list"
  outputs_type_lengths_f :: "size_t list"
  cross_batch_f :: bool

subsection \<open>Construction\<close>

text \<open>
  The constructor \<^verbatim>\<open>OperatorCost()\<close> (lines 45 to 52) runs
  \<^verbatim>\<open>for (size_t i = 0; i < MAXIMUM_INPUT_NUMBER; ++i)\<close> and appends one entry to each of the
  three vectors in every round.
\<close>

function OperatorCost_loop :: "nat \<Rightarrow> members \<Rightarrow> members" where
  "OperatorCost_loop i this =
     (if i < MAXIMUM_INPUT_NUMBER
      then OperatorCost_loop (i + 1)
             (this\<lparr>is_parameter_f := is_parameter_f this @ [False],
                   inputs_type_lengths_f := inputs_type_lengths_f this @ [DEFAULT_DATA_TYPE_LENGTH],
                   outputs_type_lengths_f := outputs_type_lengths_f this @ [DEFAULT_DATA_TYPE_LENGTH]\<rparr>)
      else this)"
  by pat_completeness auto
termination
  by (relation "measure (\<lambda>(i, this). MAXIMUM_INPUT_NUMBER - i)") auto

declare OperatorCost_loop.simps [simp del]

text \<open>
  Every concrete class has a defaulted constructor: the vectors start empty, the member
  initialiser \<^verbatim>\<open>cross_batch_ = false\<close> (line 471) is applied, and the base constructor runs.
  The freshly constructed members are therefore the same for every class.
\<close>

definition OperatorCost_ctor :: members where
  "OperatorCost_ctor =
     OperatorCost_loop 0
       \<lparr>is_parameter_f = [], inputs_type_lengths_f = [], outputs_type_lengths_f = [],
        cross_batch_f = False\<rparr>"

fun construct :: "cost_class \<Rightarrow> members" where
  "construct c = OperatorCost_ctor"

subsection \<open>Accessors and setters written in the header\<close>

definition inputs_type_lengths :: "members \<Rightarrow> size_t list" where
  "inputs_type_lengths this = inputs_type_lengths_f this"

definition outputs_type_lengths :: "members \<Rightarrow> size_t list" where
  "outputs_type_lengths this = outputs_type_lengths_f this"

definition set_cross_batch :: "bool \<Rightarrow> members \<Rightarrow> members" where
  "set_cross_batch cb this = this\<lparr>cross_batch_f := cb\<rparr>"

subsection \<open>Cost queries\<close>

text \<open>
  The four primitives. A body defined out of line is \<open>ool c p\<close>, where \<open>c\<close> is the class that
  declares the member function and \<open>p\<close> the primitive; it receives the data members and the
  three arguments of the call. \<^verbatim>\<open>ReduceMeanCost\<close> declares \<^verbatim>\<open>GetForwardMemoryCost\<close> only, so
  its other member functions are those of \<^verbatim>\<open>ReduceMethodCost\<close>.
\<close>

datatype primitive = ForwardComm | BackwardComm | ForwardMemory | BackwardMemory

type_synonym body = "members \<Rightarrow> TensorInfo list \<Rightarrow> TensorInfo list \<Rightarrow> int32_t \<Rightarrow> real"

type_synonym out_of_line = "cost_class \<Rightarrow> primitive \<Rightarrow> body"

fun GetForwardCommCost :: "out_of_line \<Rightarrow> cost_class \<Rightarrow> body" where
  "GetForwardCommCost ool MatMulCost this inputs outputs stage_id =
     ool MatMulCost ForwardComm this inputs outputs stage_id"
| "GetForwardCommCost ool ActivationCost this inputs outputs stage_id =
     ool ActivationCost ForwardComm this inputs outputs stage_id"
| "GetForwardCommCost ool SoftmaxCost this inputs outputs stage_id =
     ool SoftmaxCost ForwardComm this inputs outputs stage_id"
| "GetForwardCommCost ool TmpIdentityCost this inputs outputs stage_id =
     ool TmpIdentityCost ForwardComm this inputs outputs stage_id"
| "GetForwardCommCost ool BatchParallelCost this inputs outputs stage_id = 0"
| "GetForwardCommCost ool VirtualDatasetCost this inputs outputs stage_id = 0"
| "GetForwardCommCost ool GeneratorBaseCost this inputs outputs stage_id = 0"
| "GetForwardCommCost ool PReLUCost this inputs outputs stage_id =
     ool PReLUCost ForwardComm this inputs outputs stage_id"
| "GetForwardCommCost ool OneHotCost this inputs outputs stage_id =
     ool OneHotCost ForwardComm this inputs outputs stage_id"
| "GetForwardCommCost ool SoftmaxCrossEntropyWithLogitsCost this inputs outputs stage_id =
     ool SoftmaxCrossEntropyWithLogitsCost ForwardComm this inputs outputs stage_id"
| "GetForwardCommCost ool ReshapeCost this inputs outputs stage_id =
     ool ReshapeCost ForwardComm this inputs outputs stage_id"
| "GetForwardCommCost ool ArithmeticCost this inputs outputs stage_id = 0"
| "GetForwardCommCost ool L2NormalizeCost this inputs outputs stage_id = 0"
| "GetForwardCommCost ool ReduceMethodCost this inputs outputs stage_id =
     ool ReduceMethodCost ForwardComm this inputs outputs stage_id"
| "GetForwardCommCost ool ReduceMeanCost this inputs outputs stage_id =
     ool ReduceMethodCost ForwardComm this inputs outputs stage_id"
| "GetForwardCommCost ool GetNextCost this inputs outputs stage_id = 0"

fun GetBackwardCommCost :: "out_of_line \<Rightarrow> cost_class \<Rightarrow> body" where
  "GetBackwardCommCost ool MatMulCost this inputs outputs stage_id =
     ool MatMulCost BackwardComm this inputs outputs stage_id"
| "GetBackwardCommCost ool ActivationCost this inputs outputs stage_id =
     ool ActivationCost BackwardComm this inputs outputs stage_id"
| "GetBackwardCommCost ool SoftmaxCost this inputs outputs stage_id =
     ool SoftmaxCost BackwardComm this inputs outputs stage_id"
| "GetBackwardCommCost ool TmpIdentityCost this inputs outputs stage_id =
     ool TmpIdentityCost BackwardComm this inputs outputs stage_id"
| "GetBackwardCommCost ool BatchParallelCost this inputs outputs stage_id = 0"
| "GetBackwardCommCost ool VirtualDatasetCost this inputs outputs stage_id = 0"
| "GetBackwardCommCost ool GeneratorBaseCost this inputs outputs stage_id = 0"
| "GetBackwardCommCost ool PReLUCost this inputs outputs stage_id =
     ool PReLUCost BackwardComm this inputs outputs stage_id"
| "GetBackwardCommCost ool OneHotCost this inputs outputs stage_id =
     ool OneHotCost BackwardComm this inputs outputs stage_id"
| "GetBackwardCommCost ool SoftmaxCrossEntropyWithLogitsCost this inputs outputs stage_id =
     ool SoftmaxCrossEntropyWithLogitsCost BackwardComm this inputs outputs stage_id"
| "GetBackwardCommCost ool ReshapeCost this inputs outputs stage_id =
     ool ReshapeCost BackwardComm this inputs outputs stage_id"
| "GetBackwardCommCost ool ArithmeticCost this inputs outputs stage_id =
     ool ArithmeticCost BackwardComm this inputs outputs stage_id"
| "GetBackwardCommCost ool L2NormalizeCost this inputs outputs stage_id =
     ool L2NormalizeCost BackwardComm this inputs outputs stage_id"
| "GetBackwardCommCost ool ReduceMethodCost this inputs outputs stage_id =
     ool ReduceMethodCost BackwardComm this inputs outputs stage_id"
| "GetBackwardCommCost ool ReduceMeanCost this inputs outputs stage_id =
     ool ReduceMethodCost BackwardComm this inputs outputs stage_id"
| "GetBackwardCommCost ool GetNextCost this inputs outputs stage_id = 0"

fun GetForwardMemoryCost :: "out_of_line \<Rightarrow> cost_class \<Rightarrow> body" where
  "GetForwardMemoryCost ool MatMulCost this inputs outputs stage_id =
     ool MatMulCost ForwardMemory this inputs outputs stage_id"
| "GetForwardMemoryCost ool ActivationCost this inputs outputs stage_id =
     ool ActivationCost ForwardMemory this inputs outputs stage_id"
| "GetForwardMemoryCost ool SoftmaxCost this inputs outputs stage_id =
     ool SoftmaxCost ForwardMemory this inputs outputs stage_id"
| "GetForwardMemoryCost ool TmpIdentityCost this inputs outputs stage_id =
     ool TmpIdentityCost ForwardMemory this inputs outputs stage_id"
| "GetForwardMemoryCost ool BatchParallelCost this inputs outputs stage_id =
     ool BatchParallelCost ForwardMemory this inputs outputs stage_id"
| "GetForwardMemoryCost ool VirtualDatasetCost this inputs outputs stage_id = 0"
| "GetForwardMemoryCost ool GeneratorBaseCost this inputs outputs stage_id = 0"
| "GetForwardMemoryCost ool PReLUCost this inputs outputs stage_id =
     ool PReLUCost ForwardMemory this inputs outputs stage_id"
| "GetForwardMemoryCost ool OneHotCost this inputs outputs stage_id =
     ool OneHotCost ForwardMemory this inputs outputs stage_id"
| "GetForwardMemoryCost ool SoftmaxCrossEntropyWithLogitsCost this inputs outputs stage_id =
     ool SoftmaxCrossEntropyWithLogitsCost ForwardMemory this inputs outputs stage_id"
| "GetForwardMemoryCost ool ReshapeCost this inputs outputs stage_id =
     ool ReshapeCost ForwardMemory this inputs outputs stage_id"
| "GetForwardMemoryCost ool ArithmeticCost this inputs outputs stage_id =
     ool ArithmeticCost ForwardMemory this inputs outputs stage_id"
| "GetForwardMemoryCost ool L2NormalizeCost this inputs outputs stage_id =
     ool L2NormalizeCost ForwardMemory this inputs outputs stage_id"
| "GetForwardMemoryCost ool ReduceMethodCost this inputs outputs stage_id =
     ool ReduceMethodCost ForwardMemory this inputs outputs stage_id"
| "GetForwardMemoryCost ool ReduceMeanCost this inputs outputs stage_id =
     ool ReduceMeanCost ForwardMemory this inputs outputs stage_id"
| "GetForwardMemoryCost ool GetNextCost this inputs outputs stage_id = 0"

fun GetBackwardMemoryCost :: "out_of_line \<Rightarrow> cost_class \<Rightarrow> body" where
  "GetBackwardMemoryCost ool MatMulCost this inputs outputs stage_id =
     ool MatMulCost BackwardMemory this inputs outputs stage_id"
| "GetBackwardMemoryCost ool ActivationCost this inputs outputs stage_id =
     ool ActivationCost BackwardMemory this inputs outputs stage_id"
| "GetBackwardMemoryCost ool SoftmaxCost this inputs outputs stage_id =
     ool SoftmaxCost BackwardMemory this inputs outputs stage_id"
| "GetBackwardMemoryCost ool TmpIdentityCost this inputs outputs stage_id =
     ool TmpIdentityCost BackwardMemory this inputs outputs stage_id"
| "GetBackwardMemoryCost ool BatchParallelCost this inputs outputs stage_id =
     ool BatchParallelCost BackwardMemory this inputs outputs stage_id"
| "GetBackwardMemoryCost ool VirtualDatasetCost this inputs outputs stage_id = 0"
| "GetBackwardMemoryCost ool GeneratorBaseCost this inputs outputs stage_id = 0"
| "GetBackwardMemoryCost ool PReLUCost this inputs outputs stage_id =
     ool PReLUCost BackwardMemory this inputs outputs stage_id"
| "GetBackwardMemoryCost ool OneHotCost this inputs outputs stage_id =
     ool OneHotCost BackwardMemory this inputs outputs stage_id"
| "GetBackwardMemoryCost ool SoftmaxCrossEntropyWithLogitsCost this inputs outputs stage_id =
     ool SoftmaxCrossEntropyWithLogitsCost BackwardMemory this inputs outputs stage_id"
| "GetBackwardMemoryCost ool ReshapeCost this inputs outputs stage_id =
     ool ReshapeCost BackwardMemory this inputs outputs stage_id"
| "GetBackwardMemoryCost ool ArithmeticCost this inputs outputs stage_id =
     ool ArithmeticCost BackwardMemory this inputs outputs stage_id"
| "GetBackwardMemoryCost ool L2NormalizeCost this inputs outputs stage_id =
     ool L2NormalizeCost BackwardMemory this inputs outputs stage_id"
| "GetBackwardMemoryCost ool ReduceMethodCost this inputs outputs stage_id = 0"
| "GetBackwardMemoryCost ool ReduceMeanCost this inputs outputs stage_id = 0"
| "GetBackwardMemoryCost ool GetNextCost this inputs outputs stage_id = 0"

text \<open>
  The totals. Every class writes \<^verbatim>\<open>GetCommCost\<close> as the sum of its two virtual communication
  primitives. Every class but one writes \<^verbatim>\<open>GetMemoryCost\<close> as the sum of its two virtual memory
  primitives; \<^verbatim>\<open>ReduceMethodCost::GetMemoryCost\<close> (lines 458 to 461) returns
  \<^verbatim>\<open>GetForwardMemoryCost(...) + GetBackwardCommCost(...)\<close>, and \<^verbatim>\<open>ReduceMeanCost\<close> inherits
  that body. The calls are virtual, so they go to the primitives of the class of the instance.
\<close>

fun GetCommCost :: "out_of_line \<Rightarrow> cost_class \<Rightarrow> body" where
  "GetCommCost ool c this inputs outputs stage_id =
     GetForwardCommCost ool c this inputs outputs stage_id
       + GetBackwardCommCost ool c this inputs outputs stage_id"

fun GetMemoryCost :: "out_of_line \<Rightarrow> cost_class \<Rightarrow> body" where
  "GetMemoryCost ool ReduceMethodCost this inputs outputs stage_id =
     GetForwardMemoryCost ool ReduceMethodCost this inputs outputs stage_id
       + GetBackwardCommCost ool ReduceMethodCost this inputs outputs stage_id"
| "GetMemoryCost ool ReduceMeanCost this inputs outputs stage_id =
     GetForwardMemoryCost ool ReduceMeanCost this inputs outputs stage_id
       + GetBackwardCommCost ool ReduceMeanCost this inputs outputs stage_id"
| "GetMemoryCost ool c this inputs outputs stage_id =
     GetForwardMemoryCost ool c this inputs outputs stage_id
       + GetBackwardMemoryCost ool c this inputs outputs stage_id"

subsection \<open>Members defined out of line, modelled from the specification\<close>

text \<open>
  Modelled from the spec: the body of \<^verbatim>\<open>OperatorCost::SetInputAndOutputTypeLength\<close> is
  not among the sources (the header, line 56, only declares it). The specification says that
  it replaces the byte width of the inputs and of the outputs \<open>0..len-1\<close> respectively, and
  that untouched slots keep what they held. The specification leaves open what happens with
  a vector longer than the slot vector; here every supplied entry is then stored.
\<close>

definition replace_slots :: "'a list \<Rightarrow> 'a list \<Rightarrow> 'a list" where
  "replace_slots supplied slots = supplied @ drop (length supplied) slots"

definition SetInputAndOutputTypeLength :: "size_t list \<Rightarrow> size_t list \<Rightarrow> members \<Rightarrow> members" where
  "SetInputAndOutputTypeLength input_lengths output_lengths this =
     this\<lparr>inputs_type_lengths_f := replace_slots input_lengths (inputs_type_lengths_f this),
          outputs_type_lengths_f := replace_slots output_lengths (outputs_type_lengths_f this)\<rparr>"

text \<open>
  Modelled from the spec: the element count that the cost model derives from a descriptor.
  The costs are per device, so the count is that of the shard.
\<close>

definition element_count :: "TensorInfo \<Rightarrow> real" where
  "element_count t = ListProduct (slice_shape t)"

definition total_element_count :: "TensorInfo list \<Rightarrow> real" where
  "total_element_count ts = sum_list (map element_count ts)"

text \<open>
  Modelled from the spec: the body of \<^verbatim>\<open>BatchParallelCost::GetForwardMemoryCost\<close> is not
  among the sources (the header, lines 206 and 207, only declares it). The specification says
  that the memory cost of this class is computed normally, and that a memory cost is derived
  from the element counts of the tensors, each scaled by the byte width configured for its
  slot, falling back to the default of 4 bytes.
\<close>

definition type_length_at :: "size_t list \<Rightarrow> nat \<Rightarrow> size_t" where
  "type_length_at lengths i = (if i < length lengths then lengths ! i else DEFAULT_DATA_TYPE_LENGTH)"

definition scaled_element_counts :: "size_t list \<Rightarrow> TensorInfo list \<Rightarrow> real" where
  "scaled_element_counts lengths ts =
     sum_list (map (\<lambda>i. element_count (ts ! i) * real (unat (type_length_at lengths i)))
                   [0..<length ts])"

definition spec_BatchParallelCost_GetForwardMemoryCost :: body where
  "spec_BatchParallelCost_GetForwardMemoryCost this inputs outputs stage_id =
     scaled_element_counts (inputs_type_lengths_f this) inputs"

text \<open>
  Modelled from the spec: the bodies defined out of line are not among the sources, and the
  specification does not fix their formulas. This is one family of bodies of the kind its
  section 4.3 describes: a memory cost is the scaled element count of the inputs, a
  communication cost is either 0 or proportional to the size of the sharded tensor, and the
  backward communication formula of the reduction reads the cross-batch flag. It serves to
  show that the hypotheses made below about arbitrary bodies can be met.
\<close>

fun spec_out_of_line :: out_of_line where
  "spec_out_of_line c ForwardComm this inputs outputs stage_id = 0"
| "spec_out_of_line c BackwardComm this inputs outputs stage_id =
     (if c = ReduceMethodCost \<and> cross_batch_f this
      then scaled_element_counts (inputs_type_lengths_f this) inputs else 0)"
| "spec_out_of_line c ForwardMemory this inputs outputs stage_id =
     scaled_element_counts (inputs_type_lengths_f this) inputs"
| "spec_out_of_line c BackwardMemory this inputs outputs stage_id = 0"

section \<open>Properties\<close>

subsection \<open>The constructor loop\<close>

lemma OperatorCost_loop_unfold:
  "i \<le> MAXIMUM_INPUT_NUMBER \<Longrightarrow>
   OperatorCost_loop i this =
     this\<lparr>is_parameter_f := is_parameter_f this @ replicate (MAXIMUM_INPUT_NUMBER - i) False,
          inputs_type_lengths_f :=
            inputs_type_lengths_f this @ replicate (MAXIMUM_INPUT_NUMBER - i) DEFAULT_DATA_TYPE_LENGTH,
          outputs_type_lengths_f :=
            outputs_type_lengths_f this @ replicate (MAXIMUM_INPUT_NUMBER - i) DEFAULT_DATA_TYPE_LENGTH\<rparr>"
proof (induction i "this" rule: OperatorCost_loop.induct)
  case (1 i this)
  show ?case
  proof (cases "i < MAXIMUM_INPUT_NUMBER")
    case True
    then have step: "MAXIMUM_INPUT_NUMBER - i = Suc (MAXIMUM_INPUT_NUMBER - (i + 1))"
      by simp
    from True have "i + 1 \<le> MAXIMUM_INPUT_NUMBER"
      by simp
    with "1.IH" [OF True] True show ?thesis
      by (subst OperatorCost_loop.simps) (simp add: step)
  next
    case False
    with "1.prems" have "MAXIMUM_INPUT_NUMBER - i = 0"
      by simp
    with False show ?thesis
      by (subst OperatorCost_loop.simps) simp
  qed
qed

lemma OperatorCost_ctor_members:
  "OperatorCost_ctor =
     \<lparr>is_parameter_f = replicate MAXIMUM_INPUT_NUMBER False,
      inputs_type_lengths_f = replicate MAXIMUM_INPUT_NUMBER DEFAULT_DATA_TYPE_LENGTH,
      outputs_type_lengths_f = replicate MAXIMUM_INPUT_NUMBER DEFAULT_DATA_TYPE_LENGTH,
      cross_batch_f = False\<rparr>"
  unfolding OperatorCost_ctor_def by (simp add: OperatorCost_loop_unfold)

subsection \<open>Freshly constructed instances\<close>

text \<open>
  C4. A freshly constructed instance of any of the sixteen classes, before any configuration
  call, reports a byte width of 4 for every input slot and for every output slot: each of the
  two vectors returned by the accessors has \<^verbatim>\<open>MAXIMUM_INPUT_NUMBER\<close> = 100 entries, all
  equal to \<^verbatim>\<open>DEFAULT_DATA_TYPE_LENGTH\<close> = 4.
\<close>

theorem fresh_instance_type_lengths:
  "inputs_type_lengths (construct c) = replicate 100 4 \<and>
   outputs_type_lengths (construct c) = replicate 100 4"
  by (simp add: inputs_type_lengths_def outputs_type_lengths_def OperatorCost_ctor_members
        MAXIMUM_INPUT_NUMBER_def DEFAULT_DATA_TYPE_LENGTH_def)

text \<open>
  C10. A freshly constructed \<^verbatim>\<open>ReduceMethodCost\<close> or \<^verbatim>\<open>ReduceMeanCost\<close> has its
  cross-batch flag equal to false, and the flag holds whatever \<^verbatim>\<open>set_cross_batch\<close> last
  stored.
\<close>

theorem fresh_reduce_cross_batch_false:
  "cross_batch_f (construct ReduceMethodCost) = False \<and>
   cross_batch_f (construct ReduceMeanCost) = False \<and>
   cross_batch_f (set_cross_batch cb this) = cb"
  by (simp add: OperatorCost_ctor_members set_cross_batch_def)

subsection \<open>Constant primitives\<close>

text \<open>
  C5. For each of the data-source classes \<^verbatim>\<open>VirtualDatasetCost\<close>, \<^verbatim>\<open>GeneratorBaseCost\<close>
  and \<^verbatim>\<open>GetNextCost\<close>, the four primitives return 0 for all members, all input and output
  descriptors and every stage id.
\<close>

theorem data_source_primitives_zero:
  "GetForwardCommCost ool VirtualDatasetCost this inputs outputs stage_id = 0 \<and>
   GetBackwardCommCost ool VirtualDatasetCost this inputs outputs stage_id = 0 \<and>
   GetForwardMemoryCost ool VirtualDatasetCost this inputs outputs stage_id = 0 \<and>
   GetBackwardMemoryCost ool VirtualDatasetCost this inputs outputs stage_id = 0 \<and>
   GetForwardCommCost ool GeneratorBaseCost this inputs outputs stage_id = 0 \<and>
   GetBackwardCommCost ool GeneratorBaseCost this inputs outputs stage_id = 0 \<and>
   GetForwardMemoryCost ool GeneratorBaseCost this inputs outputs stage_id = 0 \<and>
   GetBackwardMemoryCost ool GeneratorBaseCost this inputs outputs stage_id = 0 \<and>
   GetForwardCommCost ool GetNextCost this inputs outputs stage_id = 0 \<and>
   GetBackwardCommCost ool GetNextCost this inputs outputs stage_id = 0 \<and>
   GetForwardMemoryCost ool GetNextCost this inputs outputs stage_id = 0 \<and>
   GetBackwardMemoryCost ool GetNextCost this inputs outputs stage_id = 0"
  by simp

text \<open>
  C9. \<^verbatim>\<open>ReduceMethodCost::GetBackwardMemoryCost\<close> returns 0 for all members (whatever the
  configuration and the cross-batch flag), all descriptors and every stage id, and
  \<^verbatim>\<open>ReduceMeanCost\<close> inherits it.
\<close>

theorem reduce_backward_memory_zero:
  "GetBackwardMemoryCost ool ReduceMethodCost this inputs outputs stage_id = 0 \<and>
   GetBackwardMemoryCost ool ReduceMeanCost this inputs outputs stage_id = 0"
  by simp

subsection \<open>The mean reduction\<close>

text \<open>
  C3. \<^verbatim>\<open>ReduceMeanCost\<close> overrides the forward memory formula only: on equal members and
  equal arguments, \<^verbatim>\<open>GetForwardCommCost\<close>, \<^verbatim>\<open>GetBackwardCommCost\<close> and
  \<^verbatim>\<open>GetBackwardMemoryCost\<close> of a \<^verbatim>\<open>ReduceMeanCost\<close> return what those of a
  \<^verbatim>\<open>ReduceMethodCost\<close> return, while its \<^verbatim>\<open>GetForwardMemoryCost\<close> is a body of its own.
\<close>

theorem ReduceMeanCost_inherits:
  "GetForwardCommCost ool ReduceMeanCost this inputs outputs stage_id =
     GetForwardCommCost ool ReduceMethodCost this inputs outputs stage_id \<and>
   GetBackwardCommCost ool ReduceMeanCost this inputs outputs stage_id =
     GetBackwardCommCost ool ReduceMethodCost this inputs outputs stage_id \<and>
   GetBackwardMemoryCost ool ReduceMeanCost this inputs outputs stage_id =
     GetBackwardMemoryCost ool ReduceMethodCost this inputs outputs stage_id \<and>
   GetForwardMemoryCost ool ReduceMeanCost this inputs outputs stage_id =
     ool ReduceMeanCost ForwardMemory this inputs outputs stage_id \<and>
   GetForwardMemoryCost ool ReduceMethodCost this inputs outputs stage_id =
     ool ReduceMethodCost ForwardMemory this inputs outputs stage_id"
  by simp

subsection \<open>The totals\<close>

lemma GetCommCost_additive:
  "GetCommCost ool c this inputs outputs stage_id =
     GetForwardCommCost ool c this inputs outputs stage_id
       + GetBackwardCommCost ool c this inputs outputs stage_id"
  by simp

lemma GetMemoryCost_additive_others:
  "c \<noteq> ReduceMethodCost \<Longrightarrow> c \<noteq> ReduceMeanCost \<Longrightarrow>
   GetMemoryCost ool c this inputs outputs stage_id =
     GetForwardMemoryCost ool c this inputs outputs stage_id
       + GetBackwardMemoryCost ool c this inputs outputs stage_id"
  by (cases c) simp_all

lemma GetMemoryCost_reduce:
  "c = ReduceMethodCost \<or> c = ReduceMeanCost \<Longrightarrow>
   GetMemoryCost ool c this inputs outputs stage_id =
     GetForwardMemoryCost ool c this inputs outputs stage_id
       + GetBackwardCommCost ool c this inputs outputs stage_id"
  by auto

lemma ListProduct_single: "ListProduct [n] = real_of_int n"
  by (simp add: ListProduct_def)

lemma scaled_element_counts_single:
  "scaled_element_counts lengths [t] = element_count t * real (unat (type_length_at lengths 0))"
  by (simp add: scaled_element_counts_def)

lemma total_element_count_single:
  "total_element_count [\<lparr>shape = [n], slice_shape = [n]\<rparr>] = real_of_int n"
  by (simp add: total_element_count_def element_count_def ListProduct_single)

lemma fresh_type_length_at_0:
  "type_length_at (inputs_type_lengths_f (construct c)) 0 = 4"
  by (simp add: type_length_at_def OperatorCost_ctor_members MAXIMUM_INPUT_NUMBER_def
        DEFAULT_DATA_TYPE_LENGTH_def)

text \<open>
  C1. The communication total is the sum of the two communication primitives in every class
  (\<open>GetCommCost_additive\<close>), and the memory total is the sum of the two memory primitives in
  the fourteen classes other than the reductions (\<open>GetMemoryCost_additive_others\<close>). For
  \<^verbatim>\<open>ReduceMethodCost\<close> and \<^verbatim>\<open>ReduceMeanCost\<close> the memory total adds the backward
  communication cost to the forward memory cost, while the backward memory cost is 0: wherever
  the backward communication cost is not 0, \<^verbatim>\<open>GetMemoryCost\<close> differs from
  \<^verbatim>\<open>GetForwardMemoryCost + GetBackwardMemoryCost\<close>.
\<close>

theorem reduce_GetMemoryCost_not_additive:
  assumes "c = ReduceMethodCost \<or> c = ReduceMeanCost"
    and "GetBackwardCommCost ool c this inputs outputs stage_id \<noteq> 0"
  shows "GetMemoryCost ool c this inputs outputs stage_id \<noteq>
           GetForwardMemoryCost ool c this inputs outputs stage_id
             + GetBackwardMemoryCost ool c this inputs outputs stage_id"
  using assms by auto

theorem reduce_GetMemoryCost_not_additive_witness:
  "GetBackwardCommCost spec_out_of_line ReduceMethodCost
     (set_cross_batch True (construct ReduceMethodCost))
     [\<lparr>shape = [8], slice_shape = [2]\<rparr>] [] 0 = 8 \<and>
   GetMemoryCost spec_out_of_line ReduceMethodCost
     (set_cross_batch True (construct ReduceMethodCost))
     [\<lparr>shape = [8], slice_shape = [2]\<rparr>] [] 0 \<noteq>
   GetForwardMemoryCost spec_out_of_line ReduceMethodCost
     (set_cross_batch True (construct ReduceMethodCost))
     [\<lparr>shape = [8], slice_shape = [2]\<rparr>] [] 0
   + GetBackwardMemoryCost spec_out_of_line ReduceMethodCost
     (set_cross_batch True (construct ReduceMethodCost))
     [\<lparr>shape = [8], slice_shape = [2]\<rparr>] [] 0"
proof -
  have bc: "GetBackwardCommCost spec_out_of_line ReduceMethodCost
     (set_cross_batch True (construct ReduceMethodCost))
     [\<lparr>shape = [8], slice_shape = [2]\<rparr>] [] 0 = 8"
    using fresh_type_length_at_0 [of ReduceMethodCost]
    by (simp add: set_cross_batch_def scaled_element_counts_single element_count_def
          ListProduct_single)
  then have nz: "GetBackwardCommCost spec_out_of_line ReduceMethodCost
     (set_cross_batch True (construct ReduceMethodCost))
     [\<lparr>shape = [8], slice_shape = [2]\<rparr>] [] 0 \<noteq> 0"
    by simp
  have cls: "ReduceMethodCost = ReduceMethodCost \<or> ReduceMethodCost = ReduceMeanCost"
    by simp
  from reduce_GetMemoryCost_not_additive
         [of ReduceMethodCost spec_out_of_line "set_cross_batch True (construct ReduceMethodCost)"
             "[\<lparr>shape = [8], slice_shape = [2]\<rparr>]" "[]" 0, OF cls nz] bc
  show ?thesis
    by blast
qed

subsection \<open>The cross-batch flag\<close>

lemma reduce_primitive_memory_ignores_cross_batch:
  "c = ReduceMethodCost \<or> c = ReduceMeanCost \<Longrightarrow>
   GetBackwardMemoryCost ool c (set_cross_batch False this) inputs outputs stage_id =
   GetBackwardMemoryCost ool c (set_cross_batch True this) inputs outputs stage_id"
  by auto

text \<open>
  C2. Take two instances of \<^verbatim>\<open>ReduceMethodCost\<close> (or of \<^verbatim>\<open>ReduceMeanCost\<close>) that differ
  in the cross-batch flag only, and equal arguments. \<^verbatim>\<open>GetBackwardMemoryCost\<close> is 0 on
  both (\<open>reduce_primitive_memory_ignores_cross_batch\<close>). But wherever the forward memory
  formula does not read the flag and the backward communication formula does, the total
  \<^verbatim>\<open>GetMemoryCost\<close> returns different values on the two instances, because it adds the
  backward communication cost.
\<close>

theorem reduce_GetMemoryCost_reads_cross_batch:
  assumes "c = ReduceMethodCost \<or> c = ReduceMeanCost"
    and "GetForwardMemoryCost ool c (set_cross_batch False this) inputs outputs stage_id =
         GetForwardMemoryCost ool c (set_cross_batch True this) inputs outputs stage_id"
    and "GetBackwardCommCost ool c (set_cross_batch False this) inputs outputs stage_id \<noteq>
         GetBackwardCommCost ool c (set_cross_batch True this) inputs outputs stage_id"
  shows "GetMemoryCost ool c (set_cross_batch False this) inputs outputs stage_id \<noteq>
         GetMemoryCost ool c (set_cross_batch True this) inputs outputs stage_id"
  using assms by auto

theorem reduce_GetMemoryCost_reads_cross_batch_witness:
  "GetMemoryCost spec_out_of_line ReduceMethodCost
     (set_cross_batch False (construct ReduceMethodCost))
     [\<lparr>shape = [8], slice_shape = [2]\<rparr>] [] 0 \<noteq>
   GetMemoryCost spec_out_of_line ReduceMethodCost
     (set_cross_batch True (construct ReduceMethodCost))
     [\<lparr>shape = [8], slice_shape = [2]\<rparr>] [] 0"
proof -
  have cls: "ReduceMethodCost = ReduceMethodCost \<or> ReduceMethodCost = ReduceMeanCost"
    by simp
  have fm: "GetForwardMemoryCost spec_out_of_line ReduceMethodCost
       (set_cross_batch False (construct ReduceMethodCost))
       [\<lparr>shape = [8], slice_shape = [2]\<rparr>] [] 0 =
     GetForwardMemoryCost spec_out_of_line ReduceMethodCost
       (set_cross_batch True (construct ReduceMethodCost))
       [\<lparr>shape = [8], slice_shape = [2]\<rparr>] [] 0"
    by (simp add: set_cross_batch_def)
  have bc: "GetBackwardCommCost spec_out_of_line ReduceMethodCost
       (set_cross_batch False (construct ReduceMethodCost))
       [\<lparr>shape = [8], slice_shape = [2]\<rparr>] [] 0 \<noteq>
     GetBackwardCommCost spec_out_of_line ReduceMethodCost
       (set_cross_batch True (construct ReduceMethodCost))
       [\<lparr>shape = [8], slice_shape = [2]\<rparr>] [] 0"
    using fresh_type_length_at_0 [of ReduceMethodCost]
    by (simp add: set_cross_batch_def scaled_element_counts_single element_count_def
          ListProduct_single)
  from reduce_GetMemoryCost_reads_cross_batch
         [of ReduceMethodCost spec_out_of_line "construct ReduceMethodCost"
             "[\<lparr>shape = [8], slice_shape = [2]\<rparr>]" "[]" 0, OF cls fm bc]
  show ?thesis .
qed

subsection \<open>Configuring the byte widths\<close>

text \<open>
  C7. On a freshly constructed instance, \<^verbatim>\<open>SetInputAndOutputTypeLength\<close> with an input
  vector and an output vector each shorter than the 100 slots leaves 100 slots in each
  vector: the slots covered by a supplied vector report the supplied byte widths, in order,
  and every trailing slot reports the default byte width 4.
\<close>

theorem SetInputAndOutputTypeLength_short_vectors:
  assumes "length input_lengths < 100" and "length output_lengths < 100"
  shows "inputs_type_lengths
           (SetInputAndOutputTypeLength input_lengths output_lengths (construct c)) =
           input_lengths @ replicate (100 - length input_lengths) 4 \<and>
         outputs_type_lengths
           (SetInputAndOutputTypeLength input_lengths output_lengths (construct c)) =
           output_lengths @ replicate (100 - length output_lengths) 4"
  using assms
  by (simp add: inputs_type_lengths_def outputs_type_lengths_def SetInputAndOutputTypeLength_def
        replace_slots_def OperatorCost_ctor_members MAXIMUM_INPUT_NUMBER_def
        DEFAULT_DATA_TYPE_LENGTH_def)

theorem SetInputAndOutputTypeLength_short_vectors_witness:
  "inputs_type_lengths (SetInputAndOutputTypeLength [2, 8] [1] (construct MatMulCost)) =
     [2, 8] @ replicate 98 4 \<and>
   outputs_type_lengths (SetInputAndOutputTypeLength [2, 8] [1] (construct MatMulCost)) =
     [1] @ replicate 99 4"
  using SetInputAndOutputTypeLength_short_vectors [of "[2, 8]" "[1]" MatMulCost]
  by simp

subsection \<open>The batch-parallel class\<close>

lemma BatchParallelCost_memory_single:
  assumes "ool BatchParallelCost ForwardMemory = spec_BatchParallelCost_GetForwardMemoryCost"
  shows "GetMemoryCost ool BatchParallelCost this [\<lparr>shape = [n], slice_shape = [n]\<rparr>]
           outputs stage_id =
         real_of_int n * real (unat (type_length_at (inputs_type_lengths_f this) 0))
           + ool BatchParallelCost BackwardMemory this [\<lparr>shape = [n], slice_shape = [n]\<rparr>]
               outputs stage_id"
  by (simp add: assms spec_BatchParallelCost_GetForwardMemoryCost_def
        scaled_element_counts_single element_count_def ListProduct_single)

text \<open>
  C6. For \<^verbatim>\<open>BatchParallelCost\<close> the forward and the backward communication cost are 0 for
  all descriptors and every stage id. Its memory cost varies with the tensor size: with the
  forward memory formula as the specification describes it, any backward memory formula that
  is never negative, and an instance whose first input slot has a byte width other than 0,
  there are two input sequences of different element counts on which \<^verbatim>\<open>GetMemoryCost\<close>
  returns different values.
\<close>

theorem BatchParallelCost_comm_zero_memory_varies:
  assumes fwd: "ool BatchParallelCost ForwardMemory = spec_BatchParallelCost_GetForwardMemoryCost"
    and nonneg: "\<forall>this inputs outputs stage_id.
                   0 \<le> ool BatchParallelCost BackwardMemory this inputs outputs stage_id"
    and width: "type_length_at (inputs_type_lengths_f this) 0 \<noteq> 0"
  shows "GetForwardCommCost ool BatchParallelCost this inputs outputs stage_id = 0 \<and>
         GetBackwardCommCost ool BatchParallelCost this inputs outputs stage_id = 0 \<and>
         (\<exists>inputs1 outputs1 inputs2 outputs2.
            total_element_count inputs1 \<noteq> total_element_count inputs2 \<and>
            GetMemoryCost ool BatchParallelCost this inputs1 outputs1 stage_id \<noteq>
            GetMemoryCost ool BatchParallelCost this inputs2 outputs2 stage_id)"
proof -
  define w where "w = real (unat (type_length_at (inputs_type_lengths_f this) 0))"
  define t where "t = (\<lambda>n::int. \<lparr>shape = [n], slice_shape = [n]\<rparr>)"
  define M where "M = (\<lambda>n. GetMemoryCost ool BatchParallelCost this [t n] [] stage_id)"
  define b where "b = (\<lambda>n. ool BatchParallelCost BackwardMemory this [t n] [] stage_id)"
  have M_eq: "M n = real_of_int n * w + b n" for n
    unfolding M_def b_def w_def t_def by (rule BatchParallelCost_memory_single [of ool, OF fwd])
  have b_nonneg: "0 \<le> b n" for n
    unfolding b_def using nonneg by blast
  from width have "1 \<le> unat (type_length_at (inputs_type_lengths_f this) 0)"
    by (simp add: Suc_le_eq unat_gt_0)
  then have "real 1 \<le> real (unat (type_length_at (inputs_type_lengths_f this) 0))"
    by (rule of_nat_mono)
  then have w_ge: "1 \<le> w"
    unfolding w_def by (simp only: of_nat_1)
  define n2 where "n2 = \<lceil>M 1\<rceil> + 1"
  have M1_ge: "1 \<le> M 1"
    using M_eq [of 1] b_nonneg [of 1] w_ge by simp
  have n2_gt: "M 1 < real_of_int n2"
    unfolding n2_def by linarith
  then have n2_pos: "1 < real_of_int n2"
    using M1_ge by linarith
  have "real_of_int n2 * 1 \<le> real_of_int n2 * w"
    using w_ge n2_pos by (intro mult_left_mono) simp_all
  then have "real_of_int n2 \<le> M n2"
    using M_eq [of n2] b_nonneg [of n2] by simp
  with n2_gt have differ: "M 1 \<noteq> M n2"
    by linarith
  have counts: "total_element_count [t 1] \<noteq> total_element_count [t n2]"
    unfolding t_def using n2_pos by (simp add: total_element_count_single)
  from counts differ have
    "\<exists>inputs1 outputs1 inputs2 outputs2.
        total_element_count inputs1 \<noteq> total_element_count inputs2 \<and>
        GetMemoryCost ool BatchParallelCost this inputs1 outputs1 stage_id \<noteq>
        GetMemoryCost ool BatchParallelCost this inputs2 outputs2 stage_id"
    unfolding M_def by blast
  then show ?thesis
    by simp
qed

theorem BatchParallelCost_comm_zero_memory_varies_witness:
  "GetForwardCommCost spec_out_of_line BatchParallelCost (construct BatchParallelCost)
     [\<lparr>shape = [8], slice_shape = [2]\<rparr>] [] 0 = 0 \<and>
   GetBackwardCommCost spec_out_of_line BatchParallelCost (construct BatchParallelCost)
     [\<lparr>shape = [8], slice_shape = [2]\<rparr>] [] 0 = 0 \<and>
   (\<exists>inputs1 outputs1 inputs2 outputs2.
      total_element_count inputs1 \<noteq> total_element_count inputs2 \<and>
      GetMemoryCost spec_out_of_line BatchParallelCost (construct BatchParallelCost)
        inputs1 outputs1 0 \<noteq>
      GetMemoryCost spec_out_of_line BatchParallelCost (construct BatchParallelCost)
        inputs2 outputs2 0)"
proof -
  have fwd: "spec_out_of_line BatchParallelCost ForwardMemory =
             spec_BatchParallelCost_GetForwardMemoryCost"
    by (simp add: fun_eq_iff spec_BatchParallelCost_GetForwardMemoryCost_def)
  have nonneg: "\<forall>this inputs outputs stage_id.
      0 \<le> spec_out_of_line BatchParallelCost BackwardMemory this inputs outputs stage_id"
    by simp
  have width: "type_length_at (inputs_type_lengths_f (construct BatchParallelCost)) 0 \<noteq> 0"
    using fresh_type_length_at_0 [of BatchParallelCost] by simp
  from BatchParallelCost_comm_zero_memory_varies
         [of spec_out_of_line "construct BatchParallelCost"
             "[\<lparr>shape = [8], slice_shape = [2]\<rparr>]" "[]" 0, OF fwd nonneg width]
  show ?thesis .
qed

end
